theory Spec2Isabelle
  imports Main
begin

section \<open>Values of the program\<close>

text \<open>
  The records of the project manager are the Python values that \<^verbatim>\<open>json.load\<close> returns:
  \<^verbatim>\<open>None\<close>, booleans, integers, floats, strings, lists and dictionaries with string keys.
  A float is carried as the text that Python's \<^verbatim>\<open>repr\<close> prints for it (the program
  never computes with one). A dictionary is an association list in insertion order, read
  with \<open>map_of\<close>. A character is a code point below 256.
\<close>

datatype json =
    JNull
  | JBool bool
  | JInt int
  | JFloat string
  | JStr string
  | JList "json list"
  | JObj "(string \<times> json) list"

text \<open>The exceptions that the modelled code and its library calls raise.\<close>

datatype error =
    OSError
  | JSONDecodeError
  | KeyError
  | TypeError
  | ValueError
  | AttributeError
  | IndexError
  | OverflowError
  | ProviderError string

text \<open>
  A \<^verbatim>\<open>datetime\<close> is a count of microseconds since 0001-01-01T00:00:00 (the value of
  \<^verbatim>\<open>datetime.min\<close>); it is naive (no time zone, as \<^verbatim>\<open>datetime.now()\<close> returns it) or aware
  (then the count is of its UTC instant). The largest one is 9999-12-31T23:59:59.999999.
\<close>

datatype datetime = Naive int | Aware int

definition microseconds_per_day :: int where
  "microseconds_per_day = 86400000000"

definition datetime_max :: int where
  "datetime_max = 3652059 * microseconds_per_day - 1"

text \<open>
  \<^verbatim>\<open>datetime.now() - timedelta(days=days)\<close>: an \<^verbatim>\<open>OverflowError\<close> when the day count or the
  result is out of range (a day count beyond 999999999 in magnitude always takes the result
  out of range).
\<close>

definition minus_days :: "int \<Rightarrow> int \<Rightarrow> error + datetime" where
  "minus_days now days =
     (let c = now - days * microseconds_per_day
      in if 0 \<le> c \<and> c \<le> datetime_max then Inr (Naive c) else Inl OverflowError)"

text \<open>
  \<^verbatim>\<open>a > b\<close> on two datetimes: comparing a naive with an aware one raises \<^verbatim>\<open>TypeError\<close>.
\<close>

fun datetime_gt :: "datetime \<Rightarrow> datetime \<Rightarrow> error + bool" where
  "datetime_gt (Naive a) (Naive b) = Inr (a > b)"
| "datetime_gt (Aware a) (Aware b) = Inr (a > b)"
| "datetime_gt _ _ = Inl TypeError"

text \<open>
  \<^verbatim>\<open>datetime.fromisoformat\<close> is the library's parser; the formats it accepts differ between
  Python versions, so it is a parameter \<open>P\<close> of the model, from the text to a
  \<^verbatim>\<open>ValueError\<close> or a datetime. An argument that is not a string is a \<^verbatim>\<open>TypeError\<close>.
\<close>

type_synonym iso_parser = "string \<Rightarrow> error + datetime"

fun fromisoformat :: "iso_parser \<Rightarrow> json \<Rightarrow> error + datetime" where
  "fromisoformat P (JStr s) = P s"
| "fromisoformat P _ = Inl TypeError"

text \<open>\<^verbatim>\<open>v[key]\<close> with a string key: only a dictionary can be read so.\<close>

fun getitem :: "json \<Rightarrow> string \<Rightarrow> error + json" where
  "getitem (JObj kvs) k = (case map_of kvs k of None \<Rightarrow> Inl KeyError | Some v \<Rightarrow> Inr v)"
| "getitem _ k = Inl TypeError"

text \<open>\<^verbatim>\<open>s.endswith(t)\<close>, \<^verbatim>\<open>s.startswith(t)\<close> and the substring test \<^verbatim>\<open>t in s\<close>.\<close>

definition endswith :: "string \<Rightarrow> string \<Rightarrow> bool" where
  "endswith s t = (length t \<le> length s \<and> drop (length s - length t) s = t)"

definition startswith :: "string \<Rightarrow> string \<Rightarrow> bool" where
  "startswith s t = (take (length t) s = t)"


section \<open>The record store\<close>

text \<open>
  A file of a category directory, as a scan meets it: \<^verbatim>\<open>open\<close> fails on it, or
  \<^verbatim>\<open>json.load\<close> rejects its text, or \<^verbatim>\<open>json.load\<close> returns a value. A directory is the
  list of its entries in the order \<^verbatim>\<open>os.listdir\<close> gives them. The constructor of
  \<^verbatim>\<open>ProjectManager\<close> creates the directories, so listing them does not fail.
\<close>

datatype file_content = Unreadable | Corrupt | Json json

type_synonym dir = "(string \<times> file_content) list"

record store =
  project_name :: string
  meetings_dir :: dir
  requirements_dir :: dir
  logs_dir :: dir
  project_metadata :: file_content

text \<open>\<^verbatim>\<open>with open(path, 'r') as f: json.load(f)\<close>\<close>

fun load :: "file_content \<Rightarrow> error + json" where
  "load Unreadable = Inl OSError"
| "load Corrupt = Inl JSONDecodeError"
| "load (Json v) = Inr v"

section \<open>The summary generator\<close>

text \<open>
  The dictionary that \<^verbatim>\<open>generate_project_summary\<close> returns has five fixed keys; the key
  \<^verbatim>\<open>project_name\<close> is the field \<open>summary_project_name\<close> here.
\<close>

record summary =
  summary_project_name :: string
  summary_period :: string
  meetings :: "json list"
  requirement_changes :: "json list"
  milestones :: "json list"

text \<open>\<^verbatim>\<open>str(n)\<close> of an integer, as an f-string prints it.\<close>

fun str_nat :: "nat \<Rightarrow> string" where
  "str_nat n =
     (if n < 10 then [char_of (48 + n)] else str_nat (n div 10) @ [char_of (48 + n mod 10)])"

definition str_int :: "int \<Rightarrow> string" where
  "str_int i = (if i < 0 then CHR ''-'' # str_nat (nat (- i)) else str_nat (nat i))"

text \<open>
  The body of each of the three loops of \<^verbatim>\<open>generate_project_summary\<close>, for one file:
  load it, read its \<^verbatim>\<open>date\<close>, parse it and compare it with the cutoff. The result is the
  record and whether the loop appends it. Every step can raise, and nothing in
  \<^verbatim>\<open>generate_project_summary\<close> catches.
\<close>

definition read_record :: "iso_parser \<Rightarrow> datetime \<Rightarrow> file_content \<Rightarrow> error + (json \<times> bool)" where
  "read_record P cutoff_date f =
     (case load f of
        Inl e \<Rightarrow> Inl e
      | Inr r \<Rightarrow>
          (case getitem r ''date'' of
             Inl e \<Rightarrow> Inl e
           | Inr dv \<Rightarrow>
               (case fromisoformat P dv of
                  Inl e \<Rightarrow> Inl e
                | Inr d \<Rightarrow>
                    (case datetime_gt d cutoff_date of
                       Inl e \<Rightarrow> Inl e
                     | Inr b \<Rightarrow> Inr (r, b)))))"

text \<open>
  One loop over a directory listing: \<open>sel\<close> is the test on the file name, \<open>acc\<close> the
  list appended to so far. The first exception ends the scan.
\<close>

fun collect ::
  "iso_parser \<Rightarrow> datetime \<Rightarrow> (string \<Rightarrow> bool) \<Rightarrow> dir \<Rightarrow> json list \<Rightarrow> error + json list" where
  "collect P cutoff_date sel [] acc = Inr acc"
| "collect P cutoff_date sel ((filename, f) # rest) acc =
     (if sel filename
      then (case read_record P cutoff_date f of
              Inl e \<Rightarrow> Inl e
            | Inr (r, b) \<Rightarrow> collect P cutoff_date sel rest (if b then acc @ [r] else acc))
      else collect P cutoff_date sel rest acc)"

definition is_json_file :: "string \<Rightarrow> bool" where
  "is_json_file filename = endswith filename ''.json''"

definition is_milestone_file :: "string \<Rightarrow> bool" where
  "is_milestone_file filename =
     (startswith filename ''milestone_'' \<and> endswith filename ''.json'')"

definition generate_project_summary ::
  "iso_parser \<Rightarrow> store \<Rightarrow> int \<Rightarrow> int \<Rightarrow> error + summary" where
  "generate_project_summary P st now days =
     (case minus_days now days of
        Inl e \<Rightarrow> Inl e
      | Inr cutoff_date \<Rightarrow>
          (case collect P cutoff_date is_json_file (meetings_dir st) [] of
             Inl e \<Rightarrow> Inl e
           | Inr ms \<Rightarrow>
               (case collect P cutoff_date is_json_file (requirements_dir st) [] of
                  Inl e \<Rightarrow> Inl e
                | Inr rs \<Rightarrow>
                    (case collect P cutoff_date is_milestone_file (logs_dir st) [] of
                       Inl e \<Rightarrow> Inl e
                     | Inr ls \<Rightarrow>
                         Inr \<lparr>summary_project_name = project_name st,
                              summary_period = ''Last '' @ str_int days @ '' days'',
                              meetings = ms,
                              requirement_changes = rs,
                              milestones = ls\<rparr>))))"

section \<open>Printing values\<close>

text \<open>
  \<^verbatim>\<open>sep.join(parts)\<close> on a list of strings.
\<close>

fun join :: "string \<Rightarrow> string list \<Rightarrow> string" where
  "join sep [] = []"
| "join sep [x] = x"
| "join sep (x # y # ys) = x @ sep @ join sep (y # ys)"

definition backslash :: char where
  "backslash = CHR 0x5C"

definition single_quote :: char where
  "single_quote = CHR 0x27"

definition double_quote :: char where
  "double_quote = CHR 0x22"

definition newline :: char where
  "newline = CHR 0x0A"

text \<open>
  \<^verbatim>\<open>str.isprintable\<close> on one code point below 256: the ASCII range from the space to the
  tilde, and the Latin-1 range without its control characters (128 to 159), the no-break
  space (160) and the soft hyphen (173).
\<close>

definition printable :: "char \<Rightarrow> bool" where
  "printable c =
     (let n = (of_char c :: nat) in (32 \<le> n \<and> n < 127) \<or> (161 \<le> n \<and> n \<noteq> 173))"

definition hex_digit :: "nat \<Rightarrow> char" where
  "hex_digit n = (if n < 10 then char_of (48 + n) else char_of (87 + n))"

text \<open>
  \<^verbatim>\<open>repr\<close> of a string: the delimiter is the double quote when the string has a single
  quote and no double quote, and the single quote otherwise; the delimiter and the
  backslash are escaped, tab, line feed and carriage return are written with their letter,
  every other code point that is not printable as \<^verbatim>\<open>\xhh\<close>.
\<close>

definition repr_quote :: "string \<Rightarrow> char" where
  "repr_quote s =
     (if single_quote \<in> set s \<and> double_quote \<notin> set s then double_quote else single_quote)"

definition escape_char :: "char \<Rightarrow> char \<Rightarrow> string" where
  "escape_char q c =
     (if c = q \<or> c = backslash then [backslash, c]
      else if c = CHR 0x09 then [backslash, CHR ''t'']
      else if c = CHR 0x0A then [backslash, CHR ''n'']
      else if c = CHR 0x0D then [backslash, CHR ''r'']
      else if printable c then [c]
      else [backslash, CHR ''x'', hex_digit ((of_char c :: nat) div 16),
            hex_digit ((of_char c :: nat) mod 16)])"

definition repr_str :: "string \<Rightarrow> string" where
  "repr_str s = (let q = repr_quote s in q # concat (map (escape_char q) s) @ [q])"

text \<open>\<^verbatim>\<open>repr(v)\<close>, which is also \<^verbatim>\<open>str(v)\<close> for every value but a string.\<close>

fun py_repr :: "json \<Rightarrow> string" where
  "py_repr JNull = ''None''"
| "py_repr (JBool b) = (if b then ''True'' else ''False'')"
| "py_repr (JInt i) = str_int i"
| "py_repr (JFloat t) = t"
| "py_repr (JStr s) = repr_str s"
| "py_repr (JList vs) = ''['' @ join '', '' (map py_repr vs) @ '']''"
| "py_repr (JObj kvs) =
     ''{'' @ join '', '' (map (\<lambda>kv. repr_str (fst kv) @ '': '' @ py_repr (snd kv)) kvs) @ ''}''"

fun py_str :: "json \<Rightarrow> string" where
  "py_str (JStr s) = s"
| "py_str v = py_repr v"



section \<open>The context formatter\<close>

text \<open>
  \<^verbatim>\<open>str(e)\<close> of a caught exception is a parameter \<open>E\<close> of the model: the text of a
  library's exception is the library's. A call of \<^verbatim>\<open>logger.error\<close> or
  \<^verbatim>\<open>logger.warning\<close> is an entry of the list of log entries that a function returns
  beside its result.
\<close>

type_synonym exn_str = "error \<Rightarrow> string"

datatype level = WARNING | ERROR

type_synonym log_entry = "level \<times> string"

text \<open>\<^verbatim>\<open>v.get(key, default)\<close>: only a dictionary has the method.\<close>

fun dict_get :: "json \<Rightarrow> string \<Rightarrow> json \<Rightarrow> error + json" where
  "dict_get (JObj kvs) k d = Inr (case map_of kvs k of None \<Rightarrow> d | Some v \<Rightarrow> v)"
| "dict_get _ k d = Inl AttributeError"

fun is_str :: "json \<Rightarrow> bool" where
  "is_str (JStr s) = True"
| "is_str _ = False"

text \<open>
  \<^verbatim>\<open>', '.join(v)\<close>: a list must hold strings only; a string is joined character by
  character and a dictionary by its keys; nothing else can be iterated.
\<close>

fun join_value :: "json \<Rightarrow> error + string" where
  "join_value (JList vs) =
     (if list_all is_str vs then Inr (join '', '' (map py_str vs)) else Inl TypeError)"
| "join_value (JStr s) = Inr (join '', '' (map (\<lambda>c. [c]) s))"
| "join_value (JObj kvs) = Inr (join '', '' (map fst kvs))"
| "join_value _ = Inl TypeError"

definition meeting_line :: "json \<Rightarrow> error + string" where
  "meeting_line meeting =
     (case dict_get meeting ''date'' (JStr ''Unknown Date'') of
        Inl e \<Rightarrow> Inl e
      | Inr d \<Rightarrow>
          (case dict_get meeting ''key_discussions'' (JList []) of
             Inl e \<Rightarrow> Inl e
           | Inr k \<Rightarrow>
               (case join_value k of
                  Inl e \<Rightarrow> Inl e
                | Inr t \<Rightarrow> Inr (''- '' @ py_str d @ '': '' @ t @ [newline]))))"

definition requirement_line :: "json \<Rightarrow> error + string" where
  "requirement_line req_change =
     (case dict_get req_change ''date'' (JStr ''Unknown Date'') of
        Inl e \<Rightarrow> Inl e
      | Inr d \<Rightarrow>
          (case dict_get req_change ''changes'' (JList []) of
             Inl e \<Rightarrow> Inl e
           | Inr k \<Rightarrow>
               (case join_value k of
                  Inl e \<Rightarrow> Inl e
                | Inr t \<Rightarrow> Inr (''- '' @ py_str d @ '': '' @ t @ [newline]))))"

definition milestone_line :: "json \<Rightarrow> error + string" where
  "milestone_line milestone =
     (case dict_get milestone ''name'' (JStr ''Unnamed Milestone'') of
        Inl e \<Rightarrow> Inl e
      | Inr n \<Rightarrow>
          (case dict_get milestone ''status'' (JStr ''No status'') of
             Inl e \<Rightarrow> Inl e
           | Inr s \<Rightarrow> Inr (''- '' @ py_str n @ '': '' @ py_str s @ [newline])))"

text \<open>One \<^verbatim>\<open>for\<close> loop of the formatter: \<^verbatim>\<open>context += line\<close> for each record.\<close>

fun add_lines :: "(json \<Rightarrow> error + string) \<Rightarrow> json list \<Rightarrow> string \<Rightarrow> error + string" where
  "add_lines line [] context = Inr context"
| "add_lines line (r # rs) context =
     (case line r of Inl e \<Rightarrow> Inl e | Inr l \<Rightarrow> add_lines line rs (context @ l))"

text \<open>The body of the \<^verbatim>\<open>try\<close> of \<^verbatim>\<open>get_recent_context\<close>, after the summary is there.\<close>

definition format_context :: "summary \<Rightarrow> int \<Rightarrow> error + string" where
  "format_context s days =
     (case add_lines meeting_line (meetings s)
             (''Recent Project Context (Last '' @ str_int days @ '' days):'' @ [newline, newline]
              @ ''Meetings:'' @ [newline]) of
        Inl e \<Rightarrow> Inl e
      | Inr c1 \<Rightarrow>
          (case add_lines requirement_line (requirement_changes s)
                  (c1 @ [newline] @ ''Requirement Changes:'' @ [newline]) of
             Inl e \<Rightarrow> Inl e
           | Inr c2 \<Rightarrow>
               add_lines milestone_line (milestones s)
                 (c2 @ [newline] @ ''Milestones:'' @ [newline])))"

text \<open>
  \<^verbatim>\<open>get_recent_context\<close> catches every exception of its body, logs it and returns a text
  that names it. Its parameter \<^verbatim>\<open>category\<close> is never read.
\<close>

definition context_failure :: "exn_str \<Rightarrow> error \<Rightarrow> string \<times> log_entry list" where
  "context_failure E e =
     (''Unable to generate project context. Error: '' @ E e,
      [(ERROR, ''Error generating recent context: '' @ E e)])"

definition get_recent_context ::
  "iso_parser \<Rightarrow> exn_str \<Rightarrow> store \<Rightarrow> int \<Rightarrow> int \<Rightarrow> string \<times> log_entry list" where
  "get_recent_context P E st now days =
     (case generate_project_summary P st now days of
        Inl e \<Rightarrow> context_failure E e
      | Inr s \<Rightarrow>
          (case format_context s days of
             Inl e \<Rightarrow> context_failure E e
           | Inr context \<Rightarrow> (context, [])))"

section \<open>The category filter\<close>




section \<open>Appending records\<close>

text \<open>
  What one call of a \<^verbatim>\<open>log_\<close> method reads from the clock and the random source:
  the \<^verbatim>\<open>strftime\<close> text of the time, the hexadecimal text of the UUID, the ISO text of
  the time for the record's \<^verbatim>\<open>date\<close> and the one for the metadata's \<^verbatim>\<open>last_updated\<close>.
\<close>

record stamps =
  timestamp :: string
  uuid_hex :: string
  date_iso :: string
  updated_iso :: string

text \<open>
  \<^verbatim>\<open>d[key] = v\<close> on a dictionary, and writing a file of a directory: an entry that is
  there is replaced where it stands, a new one comes last.
\<close>

fun assoc_set :: "('k \<times> 'v) list \<Rightarrow> 'k \<Rightarrow> 'v \<Rightarrow> ('k \<times> 'v) list" where
  "assoc_set [] k v = [(k, v)]"
| "assoc_set (p # ps) k v = (if fst p = k then (k, v) # ps else p # assoc_set ps k v)"

text \<open>\<^verbatim>\<open>details.get(key, default)\<close> on the caller's dictionary.\<close>

definition details_get :: "(string \<times> json) list \<Rightarrow> string \<Rightarrow> json \<Rightarrow> json" where
  "details_get details k d = (case map_of details k of None \<Rightarrow> d | Some v \<Rightarrow> v)"

text \<open>
  A method returns its value (\<^verbatim>\<open>None\<close> is \<open>JNull\<close>) or raises, and leaves the store as
  it is at that moment: what was written before an exception stays written.

  \<^verbatim>\<open>_update_project_metadata\<close> loads the metadata file, creates the section when the
  dictionary lacks it, appends the item, sets \<^verbatim>\<open>last_updated\<close> and rewrites the file.
  Metadata that is not a dictionary gives a \<^verbatim>\<open>TypeError\<close> at the section test or at the
  first subscript; a section that is not a list has no \<^verbatim>\<open>append\<close>.
\<close>

definition update_project_metadata ::
  "stamps \<Rightarrow> string \<Rightarrow> string \<Rightarrow> store \<Rightarrow> (error + json) \<times> store" where
  "update_project_metadata X section new_item st =
     (case load (project_metadata st) of
        Inl e \<Rightarrow> (Inl e, st)
      | Inr (JObj kvs) \<Rightarrow>
          (let metadata = (if section \<in> fst ` set kvs then kvs
                           else assoc_set kvs section (JList []))
           in case map_of metadata section of
                Some (JList items) \<Rightarrow>
                  (Inr JNull,
                   st\<lparr>project_metadata :=
                        Json (JObj (assoc_set
                          (assoc_set metadata section (JList (items @ [JStr new_item])))
                          ''last_updated'' (JStr (updated_iso X))))\<rparr>)
              | _ \<Rightarrow> (Inl AttributeError, st))
      | Inr _ \<Rightarrow> (Inl TypeError, st))"

definition log_meeting ::
  "stamps \<Rightarrow> (string \<times> json) list \<Rightarrow> store \<Rightarrow> (error + json) \<times> store" where
  "log_meeting X details st =
     (let meeting_id = ''meeting_'' @ timestamp X @ ''_'' @ take 8 (uuid_hex X);
          meeting_log = JObj
            [(''id'', JStr meeting_id),
             (''timestamp'', JStr (timestamp X)),
             (''date'', JStr (date_iso X)),
             (''participants'', details_get details ''participants'' (JList [])),
             (''key_discussions'', details_get details ''key_discussions'' (JList [])),
             (''action_items'', details_get details ''action_items'' (JList [])),
             (''decisions'', details_get details ''decisions'' (JList [])),
             (''next_steps'', details_get details ''next_steps'' (JList []))];
          st1 = st\<lparr>meetings_dir :=
                  assoc_set (meetings_dir st) (meeting_id @ ''.json'') (Json meeting_log)\<rparr>
      in case update_project_metadata X ''meetings'' meeting_id st1 of
           (Inl e, st2) \<Rightarrow> (Inl e, st2)
         | (Inr u, st2) \<Rightarrow> (Inr JNull, st2))"



section \<open>The conversation buffer\<close>

record message =
  role :: string
  content :: string

record conversation =
  history :: "message list"
  max_history_length :: int

text \<open>The buffer that \<^verbatim>\<open>ConversationManager()\<close> builds.\<close>

definition new_conversation :: conversation where
  "new_conversation = \<lparr>history = [], max_history_length = 20\<rparr>"

text \<open>
  \<^verbatim>\<open>add_message\<close>: \<^verbatim>\<open>self.history.pop(0)\<close> raises \<^verbatim>\<open>IndexError\<close> on an empty list, which
  the length test lets through when the bound is zero or negative.
\<close>

definition add_message ::
  "string \<Rightarrow> string \<Rightarrow> conversation \<Rightarrow> (error + unit) \<times> conversation" where
  "add_message r c cm =
     (if int (length (history cm)) \<ge> max_history_length cm
      then (case history cm of
              [] \<Rightarrow> (Inl IndexError, cm)
            | m # ms \<Rightarrow> (Inr (), cm\<lparr>history := ms @ [\<lparr>role = r, content = c\<rparr>]\<rparr>))
      else (Inr (), cm\<lparr>history := history cm @ [\<lparr>role = r, content = c\<rparr>]\<rparr>))"

definition get_context_messages :: "conversation \<Rightarrow> message list" where
  "get_context_messages cm = map (\<lambda>msg. \<lparr>role = role msg, content = content msg\<rparr>) (history cm)"

definition reset :: "conversation \<Rightarrow> conversation" where
  "reset cm = cm\<lparr>history := []\<rparr>"

section \<open>The assistant\<close>

text \<open>
  The provider call \<^verbatim>\<open>self.client.messages.create\<close> is a parameter of the model: from the
  system prompt and the messages to an exception or the texts of the content blocks of the
  response. \<^verbatim>\<open>response.content[0].text\<close> raises \<^verbatim>\<open>IndexError\<close> when there is no block.
\<close>

type_synonym provider = "string \<Rightarrow> message list \<Rightarrow> error + string list"

definition system_prompt :: "string \<Rightarrow> string" where
  "system_prompt project_context =
     join [newline]
       [''You are an expert AI assistant helping with the Confidant project.'',
        [],
        ''Project Context:'',
        project_context,
        [],
        ''Your responsibilities:'',
        ''- Provide clear, concise, and actionable advice'',
        ''- Use markdown for code formatting'',
        ''- Help with project development, design, and strategy'',
        ''- Break down complex topics into easy-to-understand explanations'',
        ''- Maintain and build upon the project's context and progress'',
        ''- Offer strategic insights based on the project's current state'']"

text \<open>The reply of the outer \<^verbatim>\<open>except\<close> of \<^verbatim>\<open>DevAssistant.run\<close>.\<close>

definition error_reply :: "exn_str \<Rightarrow> error \<Rightarrow> string" where
  "error_reply E e =
     ''An error occurred while processing your request. Please try again. Error details: ''
     @ E e"

record world =
  conv :: conversation
  disk :: store

record outcome =
  reply :: string
  after :: world
  logged :: "log_entry list"

definition run_failure :: "exn_str \<Rightarrow> error \<Rightarrow> world \<Rightarrow> log_entry list \<Rightarrow> outcome" where
  "run_failure E e w lg =
     \<lparr>reply = error_reply E e,
      after = w,
      logged = lg @ [(ERROR, ''Error in agent interaction: '' @ E e)]\<rparr>"

text \<open>The dictionary that \<^verbatim>\<open>run\<close> passes to \<^verbatim>\<open>log_meeting\<close> after an exchange.\<close>

definition exchange_details :: "string \<Rightarrow> string \<Rightarrow> (string \<times> json) list" where
  "exchange_details query ai_response =
     [(''participants'', JList [JStr ''User'', JStr ''AI Assistant'']),
      (''key_discussions'', JList [JStr query]),
      (''action_items'', JList [JStr (take 200 ai_response @ ''...'')])]"

text \<open>
  \<^verbatim>\<open>DevAssistant.run\<close> on the global buffer and project manager. \<open>now\<close> is the clock
  reading of the context retrieval, \<open>X\<close> the readings of the meeting log. The inner
  \<^verbatim>\<open>except\<close> around \<^verbatim>\<open>get_recent_context\<close> has nothing to catch, since that method
  catches every exception itself; so the default context text is never used.
\<close>

definition run ::
  "iso_parser \<Rightarrow> exn_str \<Rightarrow> provider \<Rightarrow> int \<Rightarrow> stamps \<Rightarrow> string \<Rightarrow> world \<Rightarrow> outcome" where
  "run P E llm now X query w =
     (case get_recent_context P E (disk w) now 30 of
        (project_context, lg) \<Rightarrow>
          (case add_message ''user'' query (conv w) of
             (Inl e, c1) \<Rightarrow> run_failure E e (w\<lparr>conv := c1\<rparr>) lg
           | (Inr u, c1) \<Rightarrow>
               (case llm (system_prompt project_context) (get_context_messages c1) of
                  Inl e \<Rightarrow> run_failure E e (w\<lparr>conv := c1\<rparr>) lg
                | Inr [] \<Rightarrow> run_failure E IndexError (w\<lparr>conv := c1\<rparr>) lg
                | Inr (ai_response # blocks) \<Rightarrow>
                    (case add_message ''assistant'' ai_response c1 of
                       (Inl e, c2) \<Rightarrow> run_failure E e (w\<lparr>conv := c2\<rparr>) lg
                     | (Inr u2, c2) \<Rightarrow>
                         (case log_meeting X (exchange_details query ai_response) (disk w) of
                            (Inl e, d) \<Rightarrow>
                              \<lparr>reply = ai_response,
                               after = \<lparr>conv = c2, disk = d\<rparr>,
                               logged = lg @ [(WARNING, ''Could not log meeting: '' @ E e)]\<rparr>
                          | (Inr u3, d) \<Rightarrow>
                              \<lparr>reply = ai_response,
                               after = \<lparr>conv = c2, disk = d\<rparr>,
                               logged = lg\<rparr>)))))"

section \<open>A caller of the buffer\<close>

text \<open>
  Appending turns one after another, each a pair of role and content, as successive calls
  of \<^verbatim>\<open>add_message\<close> do; the first exception ends the sequence.
\<close>

fun add_messages ::
  "(string \<times> string) list \<Rightarrow> conversation \<Rightarrow> (error + unit) \<times> conversation" where
  "add_messages [] cm = (Inr (), cm)"
| "add_messages ((r, c) # ts) cm =
     (case add_message r c cm of
        (Inl e, cm') \<Rightarrow> (Inl e, cm')
      | (Inr u, cm') \<Rightarrow> add_messages ts cm')"

definition turn :: "string \<times> string \<Rightarrow> message" where
  "turn t = \<lparr>role = fst t, content = snd t\<rparr>"

section \<open>Sample inputs\<close>

text \<open>
  The inputs at which the theorems below are evaluated. The sample parser gives the
  instants of the five texts that the sample records carry, counted in microseconds since
  0001-01-01T00:00:00; the sample clock reads 2024-06-01T12:00:00, so that thirty days
  before it is 2024-05-02T12:00:00.
\<close>

definition sample_parser :: iso_parser where
  "sample_parser t =
     (if t = ''2024-05-20T10:00:00'' then Inr (Naive 63851796000000000)
      else if t = ''2024-05-02T12:00:00'' then Inr (Naive 63850248000000000)
      else if t = ''2024-03-01T08:00:00'' then Inr (Naive 63844876800000000)
      else if t = ''2024-05-25T09:15:00'' then Inr (Naive 63852225300000000)
      else if t = ''2024-05-28T16:45:00'' then Inr (Naive 63852511500000000)
      else Inl ValueError)"

definition sample_now :: int where
  "sample_now = 63852840000000000"

definition sample_exn_str :: exn_str where
  "sample_exn_str e =
     (case e of
        ProviderError m \<Rightarrow> m
      | JSONDecodeError \<Rightarrow> ''Expecting value: line 1 column 1 (char 0)''
      | IndexError \<Rightarrow> ''list index out of range''
      | _ \<Rightarrow> ''error'')"

definition recent_meeting :: json where
  "recent_meeting = JObj
     [(''id'', JStr ''meeting_20240520_100000_ab12cd34''),
      (''timestamp'', JStr ''20240520_100000''),
      (''date'', JStr ''2024-05-20T10:00:00''),
      (''participants'', JList [JStr ''Project Lead'', JStr ''Developer'']),
      (''key_discussions'', JList [JStr ''Memory storage'', JStr ''Privacy'']),
      (''action_items'', JList []),
      (''decisions'', JList []),
      (''next_steps'', JList [])]"

definition boundary_meeting :: json where
  "boundary_meeting = JObj
     [(''id'', JStr ''meeting_20240502_120000_0f0f0f0f''),
      (''timestamp'', JStr ''20240502_120000''),
      (''date'', JStr ''2024-05-02T12:00:00''),
      (''participants'', JList []),
      (''key_discussions'', JList [JStr ''Kickoff'']),
      (''action_items'', JList []),
      (''decisions'', JList []),
      (''next_steps'', JList [])]"

definition old_meeting :: json where
  "old_meeting = JObj
     [(''id'', JStr ''meeting_20240301_080000_77aa77aa''),
      (''timestamp'', JStr ''20240301_080000''),
      (''date'', JStr ''2024-03-01T08:00:00''),
      (''participants'', JList []),
      (''key_discussions'', JList [JStr ''Encryption survey'']),
      (''action_items'', JList []),
      (''decisions'', JList []),
      (''next_steps'', JList [])]"

definition encryption_requirement :: json where
  "encryption_requirement = JObj
     [(''id'', JStr ''requirement_20240525_091500_c0ffee00''),
      (''timestamp'', JStr ''20240525_091500''),
      (''date'', JStr ''2024-05-25T09:15:00''),
      (''category'', JStr ''Technical Requirements''),
      (''changes'', JList [JStr ''Added offline mode'']),
      (''rationale'', JStr ''Use local encryption for stored memories''),
      (''impact'', JList []),
      (''proposed_by'', JStr ''Unknown'')]"

definition offline_requirement :: json where
  "offline_requirement = JObj
     [(''id'', JStr ''requirement_20240520_100000_12345678''),
      (''timestamp'', JStr ''20240520_100000''),
      (''date'', JStr ''2024-05-20T10:00:00''),
      (''category'', JStr ''General''),
      (''changes'', JList [JStr ''Dropped cloud sync'']),
      (''rationale'', JStr ''Keep the system independent''),
      (''impact'', JList []),
      (''proposed_by'', JStr ''Unknown'')]"

definition design_milestone :: json where
  "design_milestone = JObj
     [(''id'', JStr ''milestone_20240528_164500_deadbeef''),
      (''timestamp'', JStr ''20240528_164500''),
      (''date'', JStr ''2024-05-28T16:45:00''),
      (''name'', JStr ''Initial Architecture Design''),
      (''description'', JStr []),
      (''status'', JStr ''Completed''),
      (''completion_date'', JNull),
      (''key_achievements'', JList [])]"

definition sample_metadata :: json where
  "sample_metadata = JObj
     [(''project_name'', JStr ''Confidant''),
      (''created_at'', JStr ''2024-03-01T08:00:00''),
      (''last_updated'', JStr ''2024-05-28T16:45:00''),
      (''status'', JStr ''Active''),
      (''milestones'', JList [JStr ''milestone_20240528_164500_deadbeef'']),
      (''key_objectives'', JList [])]"

definition empty_store :: store where
  "empty_store =
     \<lparr>project_name = ''Confidant'',
      meetings_dir = [],
      requirements_dir = [],
      logs_dir = [],
      project_metadata = Json sample_metadata\<rparr>"

definition sample_store :: store where
  "sample_store =
     \<lparr>project_name = ''Confidant'',
      meetings_dir =
        [(''meeting_20240520_100000_ab12cd34.json'', Json recent_meeting),
         (''meeting_20240502_120000_0f0f0f0f.json'', Json boundary_meeting),
         (''meeting_20240301_080000_77aa77aa.json'', Json old_meeting)],
      requirements_dir =
        [(''requirement_20240525_091500_c0ffee00.json'', Json encryption_requirement),
         (''requirement_20240520_100000_12345678.json'', Json offline_requirement)],
      logs_dir =
        [(''milestone_20240528_164500_deadbeef.json'', Json design_milestone)],
      project_metadata = Json sample_metadata\<rparr>"

text \<open>The sample store with one more meeting file, whose text is not JSON.\<close>

definition corrupt_store :: store where
  "corrupt_store =
     sample_store\<lparr>meetings_dir :=
       meetings_dir sample_store @ [(''meeting_20240521_110000_0badf00d.json'', Corrupt)]\<rparr>"

text \<open>The store with no record file whose metadata file is not JSON.\<close>

definition unindexed_store :: store where
  "unindexed_store = empty_store\<lparr>project_metadata := Corrupt\<rparr>"

definition sample_stamps :: stamps where
  "sample_stamps =
     \<lparr>timestamp = ''20240601_120000'',
      uuid_hex = ''1a2b3c4d5e6f40718293a4b5c6d7e8f9'',
      date_iso = ''2024-06-01T12:00:00.000250'',
      updated_iso = ''2024-06-01T12:00:00.000900''\<rparr>"

definition sample_llm :: provider where
  "sample_llm system msgs = Inr [''Use a layered design.'']"

definition failing_llm :: provider where
  "failing_llm system msgs = Inl (ProviderError ''Connection error.'')"

text \<open>What the scan of the sample store returns for 30 and for 100 days.\<close>

definition sample_summary :: summary where
  "sample_summary =
     \<lparr>summary_project_name = ''Confidant'',
      summary_period = ''Last 30 days'',
      meetings = [recent_meeting],
      requirement_changes = [encryption_requirement, offline_requirement],
      milestones = [design_milestone]\<rparr>"

definition wide_summary :: summary where
  "wide_summary =
     \<lparr>summary_project_name = ''Confidant'',
      summary_period = ''Last 100 days'',
      meetings = [recent_meeting, boundary_meeting, old_meeting],
      requirement_changes = [encryption_requirement, offline_requirement],
      milestones = [design_milestone]\<rparr>"

text \<open>Twenty-one turns, numbered from 0, of alternating roles.\<close>

definition twenty_one_turns :: "(string \<times> string) list" where
  "twenty_one_turns =
     map (\<lambda>i. (if even i then ''user'' else ''assistant'', str_nat i)) [0..<21]"

text \<open>A query, the world before it, and the details of a meeting to log.\<close>

definition sample_query :: string where
  "sample_query = ''How should I start?''"

definition sample_world :: world where
  "sample_world = \<lparr>conv = new_conversation, disk = sample_store\<rparr>"

definition unindexed_world :: world where
  "unindexed_world = \<lparr>conv = new_conversation, disk = unindexed_store\<rparr>"

definition corrupt_world :: world where
  "corrupt_world = \<lparr>conv = new_conversation, disk = corrupt_store\<rparr>"



section \<open>Properties of the scan\<close>

lemma read_record_Json:
  "read_record P c f = Inr (r, b) \<Longrightarrow> f = Json r"
  by (cases f) (auto simp: read_record_def split: sum.splits)

lemma read_record_naive:
  "getitem r ''date'' = Inr (JStr t) \<Longrightarrow> P t = Inr (Naive d) \<Longrightarrow>
   read_record P (Naive c) (Json r) = Inr (r, c < d)"
  by (simp add: read_record_def)

lemma read_record_date:
  "read_record P (Naive c) f = Inr (r, b) \<Longrightarrow>
   \<exists>t d. getitem r ''date'' = Inr (JStr t) \<and> P t = Inr (Naive d) \<and> b = (c < d)"
  apply (cases f)
    apply (auto simp: read_record_def split: sum.splits)
  subgoal for dv d
    apply (cases dv; cases d)
    apply auto
    done
  done

lemma collect_set:
  "collect P c sel d acc = Inr out \<Longrightarrow>
   set out = set acc \<union> {r. \<exists>fn f. (fn, f) \<in> set d \<and> sel fn \<and> read_record P c f = Inr (r, True)}"
proof (induction d arbitrary: acc)
  case Nil
  then show ?case by simp
next
  case (Cons a d)
  obtain fn f where a: "a = (fn, f)" by (cases a)
  show ?case
  proof (cases "sel fn")
    case False
    with Cons a show ?thesis by auto
  next
    case True
    with Cons.prems a obtain r b where rb: "read_record P c f = Inr (r, b)"
      and rest: "collect P c sel d (if b then acc @ [r] else acc) = Inr out"
      by (auto split: sum.splits)
    from Cons.IH[OF rest] rb True a show ?thesis
      by (cases b) auto
  qed
qed

lemma collect_reads_all:
  "collect P c sel d acc = Inr out \<Longrightarrow> (fn, f) \<in> set d \<Longrightarrow> sel fn \<Longrightarrow>
   \<exists>r b. read_record P c f = Inr (r, b)"
proof (induction d arbitrary: acc)
  case Nil
  then show ?case by simp
next
  case (Cons a d)
  obtain fn' f' where a: "a = (fn', f')" by (cases a)
  show ?case
  proof (cases "sel fn'")
    case False
    with Cons a show ?thesis by auto
  next
    case True
    with Cons.prems(1) a obtain r b where rb: "read_record P c f' = Inr (r, b)"
      and rest: "collect P c sel d (if b then acc @ [r] else acc) = Inr out"
      by (auto split: sum.splits)
    from Cons.prems(2) a have "(fn, f) = (fn', f') \<or> (fn, f) \<in> set d" by auto
    then show ?thesis
    proof
      assume "(fn, f) = (fn', f')"
      with rb show ?thesis by auto
    next
      assume "(fn, f) \<in> set d"
      from Cons.IH[OF rest this Cons.prems(3)] show ?thesis .
    qed
  qed
qed

lemma summary_parts:
  assumes "generate_project_summary P st now days = Inr s"
  shows "\<exists>c. c = now - days * microseconds_per_day \<and> 0 \<le> c \<and> c \<le> datetime_max
      \<and> collect P (Naive c) is_json_file (meetings_dir st) [] = Inr (meetings s)
      \<and> collect P (Naive c) is_json_file (requirements_dir st) [] = Inr (requirement_changes s)
      \<and> collect P (Naive c) is_milestone_file (logs_dir st) [] = Inr (milestones s)"
  using assms
  by (auto simp: generate_project_summary_def minus_days_def Let_def split: sum.splits if_splits)

lemma collect_corrupt:
  assumes "(fn, Corrupt) \<in> set d" and "sel fn"
  shows "\<exists>e. collect P c sel d acc = Inl e"
proof (cases "collect P c sel d acc")
  case (Inl e)
  then show ?thesis by blast
next
  case (Inr out)
  from collect_reads_all[OF Inr assms] show ?thesis
    by (simp add: read_record_def)
qed

lemma collect_window:
  assumes "collect P (Naive c) sel d [] = Inr out"
      and "getitem r ''date'' = Inr (JStr t)" and "P t = Inr (Naive x)"
      and "(fn, Json r) \<in> set d" and "sel fn"
  shows "r \<in> set out \<longleftrightarrow> c < x"
proof
  assume "r \<in> set out"
  with collect_set[OF assms(1)] obtain f' where
    "read_record P (Naive c) f' = Inr (r, True)" by auto
  moreover from this have "f' = Json r" by (rule read_record_Json)
  ultimately show "c < x" using read_record_naive[where P = P and c = c, OF assms(2,3)] by simp
next
  assume "c < x"
  with read_record_naive[where P = P and c = c, OF assms(2,3)]
  have "read_record P (Naive c) (Json r) = Inr (r, True)" by simp
  with assms(4,5) collect_set[OF assms(1)] show "r \<in> set out" by auto
qed

lemma collect_mono:
  assumes "collect P (Naive c1) sel d [] = Inr o1"
      and "collect P (Naive c2) sel d [] = Inr o2" and "c2 \<le> c1"
  shows "set o1 \<subseteq> set o2"
proof
  fix r assume "r \<in> set o1"
  with collect_set[OF assms(1)] obtain fn f where
    f: "(fn, f) \<in> set d" "sel fn" "read_record P (Naive c1) f = Inr (r, True)" by auto
  from read_record_date[OF f(3)] obtain t x where
    x: "getitem r ''date'' = Inr (JStr t)" "P t = Inr (Naive x)" "c1 < x" by auto
  from f(3) have "f = Json r" by (rule read_record_Json)
  with read_record_naive[where P = P and c = c2, OF x(1,2)] x(3) assms(3)
  have "read_record P (Naive c2) f = Inr (r, True)" by simp
  with f(1,2) collect_set[OF assms(2)] show "r \<in> set o2" by auto
qed

text \<open>The scan evaluated at the sample store.\<close>

lemmas sample_defs =
  minus_days_def microseconds_per_day_def datetime_max_def sample_now_def
  sample_store_def read_record_def is_json_file_def is_milestone_file_def endswith_def
  startswith_def sample_parser_def recent_meeting_def boundary_meeting_def old_meeting_def
  encryption_requirement_def offline_requirement_def design_milestone_def

lemma str_int_30: "str_int 30 = ''30''"
  by code_simp

lemma str_int_100: "str_int 100 = ''100''"
  by code_simp

lemma sample_summary_30:
  "generate_project_summary sample_parser sample_store sample_now 30 = Inr sample_summary"
  by (simp add: generate_project_summary_def sample_summary_def str_int_30 sample_defs)

lemma sample_summary_100:
  "generate_project_summary sample_parser sample_store sample_now 100 = Inr wide_summary"
  by (simp add: generate_project_summary_def wide_summary_def str_int_100 sample_defs)

text \<open>
  Claim C1, as the code has it. \<^verbatim>\<open>generate_project_summary\<close> has no handler around
  \<^verbatim>\<open>json.load\<close>: when a file that the scan reads (a \<^verbatim>\<open>.json\<close> file of the meetings or
  requirements directory, a \<^verbatim>\<open>milestone_*.json\<close> file of the logs directory) holds
  malformed JSON, the scan ends with an exception and returns no summary; no record is
  skipped. \<^verbatim>\<open>get_recent_context\<close> catches that exception, logs it and returns its text
  "Unable to generate project context".
\<close>

theorem corrupt_record_aborts_scan:
  assumes "((fn, Corrupt) \<in> set (meetings_dir st) \<and> is_json_file fn)
         \<or> ((fn, Corrupt) \<in> set (requirements_dir st) \<and> is_json_file fn)
         \<or> ((fn, Corrupt) \<in> set (logs_dir st) \<and> is_milestone_file fn)"
  shows "\<exists>e. generate_project_summary P st now days = Inl e
           \<and> get_recent_context P E st now days = context_failure E e"
proof (cases "generate_project_summary P st now days")
  case (Inl e)
  then show ?thesis by (simp add: get_recent_context_def)
next
  case (Inr s)
  from summary_parts[OF Inr] obtain c where
    c: "collect P (Naive c) is_json_file (meetings_dir st) [] = Inr (meetings s)"
       "collect P (Naive c) is_json_file (requirements_dir st) [] = Inr (requirement_changes s)"
       "collect P (Naive c) is_milestone_file (logs_dir st) [] = Inr (milestones s)"
    by blast
  from assms c collect_corrupt[of fn "meetings_dir st" is_json_file P "Naive c" "[]"]
    collect_corrupt[of fn "requirements_dir st" is_json_file P "Naive c" "[]"]
    collect_corrupt[of fn "logs_dir st" is_milestone_file P "Naive c" "[]"]
  show ?thesis by auto
qed

text \<open>
  Claim C1 as stated fails: the sample store with one more meeting file of malformed JSON
  has six parseable records, four of them in the window, and the scan of it returns
  none of them but raises.
\<close>

theorem corrupt_record_counterexample:
  "generate_project_summary sample_parser corrupt_store sample_now 30 = Inl JSONDecodeError"
  by (simp add: generate_project_summary_def minus_days_def microseconds_per_day_def
      datetime_max_def sample_now_def corrupt_store_def sample_store_def read_record_def
      is_json_file_def endswith_def sample_parser_def recent_meeting_def boundary_meeting_def
      old_meeting_def)

text \<open>
  The theorem of claim C1 at the sample store with the malformed meeting file.
\<close>

theorem corrupt_record_aborts_scan_witness:
  "(''meeting_20240521_110000_0badf00d.json'', Corrupt) \<in> set (meetings_dir corrupt_store)
   \<and> is_json_file ''meeting_20240521_110000_0badf00d.json''
   \<and> generate_project_summary sample_parser corrupt_store sample_now 30 = Inl JSONDecodeError
   \<and> get_recent_context sample_parser sample_exn_str corrupt_store sample_now 30
       = (''Unable to generate project context. Error: Expecting value: line 1 column 1 (char 0)'',
          [(ERROR, ''Error generating recent context: Expecting value: line 1 column 1 (char 0)'')])"
proof -
  have m: "(''meeting_20240521_110000_0badf00d.json'', Corrupt) \<in> set (meetings_dir corrupt_store)"
    by (simp add: corrupt_store_def)
  have j: "is_json_file ''meeting_20240521_110000_0badf00d.json''"
    by (simp add: is_json_file_def endswith_def)
  have g: "generate_project_summary sample_parser corrupt_store sample_now 30 = Inl JSONDecodeError"
    by (simp add: generate_project_summary_def corrupt_store_def sample_defs)
  from corrupt_record_aborts_scan[of "''meeting_20240521_110000_0badf00d.json''" corrupt_store
      sample_parser sample_now 30 sample_exn_str] m j g
  show ?thesis by (simp add: context_failure_def sample_exn_str_def)
qed

lemma collect_member_recent:
  assumes "collect P (Naive c) sel d [] = Inr out" and "r \<in> set out"
  shows "\<exists>t x. getitem r ''date'' = Inr (JStr t) \<and> P t = Inr (Naive x) \<and> c < x"
proof -
  from collect_set[OF assms(1)] assms(2) obtain f where
    "read_record P (Naive c) f = Inr (r, True)" by auto
  from read_record_date[OF this] show ?thesis by auto
qed

lemma collect_boundary:
  assumes "collect P (Naive c) sel d [] = Inr out"
      and "getitem r ''date'' = Inr (JStr t)" and "P t = Inr (Naive c)"
  shows "r \<notin> set out"
proof
  assume "r \<in> set out"
  from collect_member_recent[OF assms(1) this] assms(2,3) show False by auto
qed

text \<open>
  Claim C2. When the scan returns a summary, a record file whose \<^verbatim>\<open>date\<close> parses to the
  (naive) instant \<open>d\<close> is in the summary's list of its category if and only if \<open>d\<close> is
  strictly later than \<open>now\<close> minus \<open>days\<close> days; a record whose date is exactly
  \<open>now\<close> minus \<open>days\<close> days is in none of the lists.
\<close>

theorem summary_window_strict:
  assumes "generate_project_summary P st now days = Inr s"
      and "getitem r ''date'' = Inr (JStr t)" and "P t = Inr (Naive d)"
  shows "((fn, Json r) \<in> set (meetings_dir st) \<and> is_json_file fn \<longrightarrow>
            (r \<in> set (meetings s) \<longleftrightarrow> now - days * microseconds_per_day < d))
       \<and> ((fn, Json r) \<in> set (requirements_dir st) \<and> is_json_file fn \<longrightarrow>
            (r \<in> set (requirement_changes s) \<longleftrightarrow> now - days * microseconds_per_day < d))
       \<and> ((fn, Json r) \<in> set (logs_dir st) \<and> is_milestone_file fn \<longrightarrow>
            (r \<in> set (milestones s) \<longleftrightarrow> now - days * microseconds_per_day < d))
       \<and> (d = now - days * microseconds_per_day \<longrightarrow>
            r \<notin> set (meetings s) \<and> r \<notin> set (requirement_changes s) \<and> r \<notin> set (milestones s))"
proof -
  from summary_parts[OF assms(1)] obtain c where
    c: "c = now - days * microseconds_per_day"
       "collect P (Naive c) is_json_file (meetings_dir st) [] = Inr (meetings s)"
       "collect P (Naive c) is_json_file (requirements_dir st) [] = Inr (requirement_changes s)"
       "collect P (Naive c) is_milestone_file (logs_dir st) [] = Inr (milestones s)"
    by blast
  have "(fn, Json r) \<in> set (meetings_dir st) \<and> is_json_file fn \<longrightarrow>
          (r \<in> set (meetings s) \<longleftrightarrow> c < d)"
    using collect_window[OF c(2) assms(2,3)] by blast
  moreover have "(fn, Json r) \<in> set (requirements_dir st) \<and> is_json_file fn \<longrightarrow>
          (r \<in> set (requirement_changes s) \<longleftrightarrow> c < d)"
    using collect_window[OF c(3) assms(2,3)] by blast
  moreover have "(fn, Json r) \<in> set (logs_dir st) \<and> is_milestone_file fn \<longrightarrow>
          (r \<in> set (milestones s) \<longleftrightarrow> c < d)"
    using collect_window[OF c(4) assms(2,3)] by blast
  moreover have "d = c \<longrightarrow>
      r \<notin> set (meetings s) \<and> r \<notin> set (requirement_changes s) \<and> r \<notin> set (milestones s)"
    using collect_boundary[OF c(2) assms(2)] collect_boundary[OF c(3) assms(2)]
      collect_boundary[OF c(4) assms(2)] assms(3) by blast
  ultimately show ?thesis unfolding c(1) by blast
qed

text \<open>
  The theorem of claim C2 at the sample store, thirty days: the meeting of 20 May is in,
  the meeting dated exactly thirty days before the clock reading is out, and so is the
  meeting of 1 March.
\<close>

theorem summary_window_strict_witness:
  "generate_project_summary sample_parser sample_store sample_now 30 = Inr sample_summary
   \<and> recent_meeting \<in> set (meetings sample_summary)
   \<and> boundary_meeting \<notin> set (meetings sample_summary)
   \<and> old_meeting \<notin> set (meetings sample_summary)
   \<and> design_milestone \<in> set (milestones sample_summary)"
proof -
  note s = sample_summary_30
  have g1: "getitem recent_meeting ''date'' = Inr (JStr ''2024-05-20T10:00:00'')"
    by (simp add: recent_meeting_def)
  have p1: "sample_parser ''2024-05-20T10:00:00'' = Inr (Naive 63851796000000000)"
    by (simp add: sample_parser_def)
  have g2: "getitem boundary_meeting ''date'' = Inr (JStr ''2024-05-02T12:00:00'')"
    by (simp add: boundary_meeting_def)
  have p2: "sample_parser ''2024-05-02T12:00:00'' = Inr (Naive 63850248000000000)"
    by (simp add: sample_parser_def)
  have g3: "getitem old_meeting ''date'' = Inr (JStr ''2024-03-01T08:00:00'')"
    by (simp add: old_meeting_def)
  have p3: "sample_parser ''2024-03-01T08:00:00'' = Inr (Naive 63844876800000000)"
    by (simp add: sample_parser_def)
  have g4: "getitem design_milestone ''date'' = Inr (JStr ''2024-05-28T16:45:00'')"
    by (simp add: design_milestone_def)
  have p4: "sample_parser ''2024-05-28T16:45:00'' = Inr (Naive 63852511500000000)"
    by (simp add: sample_parser_def)
  have "recent_meeting \<in> set (meetings sample_summary)"
    using summary_window_strict[where P = sample_parser, OF s g1 p1,
        of "''meeting_20240520_100000_ab12cd34.json''"]
    by (simp add: sample_store_def is_json_file_def endswith_def sample_now_def
        microseconds_per_day_def)
  moreover have "boundary_meeting \<notin> set (meetings sample_summary)"
    using summary_window_strict[where P = sample_parser, OF s g2 p2,
        of "''meeting_20240502_120000_0f0f0f0f.json''"]
    by (simp add: sample_now_def microseconds_per_day_def)
  moreover have "old_meeting \<notin> set (meetings sample_summary)"
    using summary_window_strict[where P = sample_parser, OF s g3 p3,
        of "''meeting_20240301_080000_77aa77aa.json''"]
    by (simp add: sample_store_def is_json_file_def endswith_def sample_now_def
        microseconds_per_day_def)
  moreover have "design_milestone \<in> set (milestones sample_summary)"
    using summary_window_strict[where P = sample_parser, OF s g4 p4,
        of "''milestone_20240528_164500_deadbeef.json''"]
    by (simp add: sample_store_def is_milestone_file_def startswith_def endswith_def
        sample_now_def microseconds_per_day_def)
  ultimately show ?thesis using s by simp
qed

lemma read_record_any_cutoff:
  "read_record P (Naive c1) f = Inr (r, b) \<Longrightarrow>
   \<exists>b'. read_record P (Naive c2) f = Inr (r, b')"
  using read_record_date[of P c1 f r b] read_record_Json[of P "Naive c1" f r b]
    read_record_naive[where P = P and c = c2 and r = r]
  by auto

lemma collect_any_cutoff:
  "collect P (Naive c1) sel d acc = Inr o1 \<Longrightarrow>
   \<exists>o2. collect P (Naive c2) sel d acc' = Inr o2"
proof (induction d arbitrary: acc acc')
  case Nil
  then show ?case by simp
next
  case (Cons a d)
  obtain fn f where a: "a = (fn, f)" by (cases a)
  show ?case
  proof (cases "sel fn")
    case False
    with Cons a show ?thesis by auto
  next
    case True
    with Cons.prems a obtain r b where rb: "read_record P (Naive c1) f = Inr (r, b)"
      and rest: "collect P (Naive c1) sel d (if b then acc @ [r] else acc) = Inr o1"
      by (auto split: sum.splits)
    from read_record_any_cutoff[OF rb] obtain b' where
      b': "read_record P (Naive c2) f = Inr (r, b')" by blast
    from Cons.IH[OF rest, of "if b' then acc' @ [r] else acc'"] b' True a
    show ?thesis by simp
  qed
qed

text \<open>
  Claim C3. Over the same store and at the same clock reading, when the scan with the
  window \<open>W1\<close> returns a summary and \<open>W1 < W2\<close>, the scan with \<open>W2\<close> returns a summary
  too (its cutoff being a date that exists: not before the year 1), and each of the
  three lists of the first holds only records of the same list of the second.
\<close>

theorem wider_window_superset:
  assumes "generate_project_summary P st now W1 = Inr s1"
      and "W1 < W2" and "0 \<le> now - W2 * microseconds_per_day"
  shows "\<exists>s2. generate_project_summary P st now W2 = Inr s2
           \<and> set (meetings s1) \<subseteq> set (meetings s2)
           \<and> set (requirement_changes s1) \<subseteq> set (requirement_changes s2)
           \<and> set (milestones s1) \<subseteq> set (milestones s2)"
proof -
  define c1 where "c1 = now - W1 * microseconds_per_day"
  define c2 where "c2 = now - W2 * microseconds_per_day"
  from summary_parts[OF assms(1)] have
    c1: "0 \<le> c1" "c1 \<le> datetime_max"
       "collect P (Naive c1) is_json_file (meetings_dir st) [] = Inr (meetings s1)"
       "collect P (Naive c1) is_json_file (requirements_dir st) [] = Inr (requirement_changes s1)"
       "collect P (Naive c1) is_milestone_file (logs_dir st) [] = Inr (milestones s1)"
    unfolding c1_def by blast+
  from assms(2) have le: "c2 \<le> c1"
    unfolding c1_def c2_def by (simp add: microseconds_per_day_def)
  from collect_any_cutoff[OF c1(3), of c2 "[]"] obtain ms where
    ms: "collect P (Naive c2) is_json_file (meetings_dir st) [] = Inr ms" by blast
  from collect_any_cutoff[OF c1(4), of c2 "[]"] obtain rs where
    rs: "collect P (Naive c2) is_json_file (requirements_dir st) [] = Inr rs" by blast
  from collect_any_cutoff[OF c1(5), of c2 "[]"] obtain ls where
    ls: "collect P (Naive c2) is_milestone_file (logs_dir st) [] = Inr ls" by blast
  have range: "0 \<le> c2 \<and> c2 \<le> datetime_max"
    using assms(3) le c1(2) unfolding c2_def by simp
  have "generate_project_summary P st now W2 =
          Inr \<lparr>summary_project_name = project_name st,
               summary_period = ''Last '' @ str_int W2 @ '' days'',
               meetings = ms, requirement_changes = rs, milestones = ls\<rparr>"
    using range ms rs ls
    by (simp add: generate_project_summary_def minus_days_def c2_def[symmetric])
  moreover have "set (meetings s1) \<subseteq> set ms"
    by (rule collect_mono[OF c1(3) ms le])
  moreover have "set (requirement_changes s1) \<subseteq> set rs"
    by (rule collect_mono[OF c1(4) rs le])
  moreover have "set (milestones s1) \<subseteq> set ls"
    by (rule collect_mono[OF c1(5) ls le])
  ultimately show ?thesis by simp
qed

text \<open>
  The theorem of claim C3 at the sample store, for 30 and 100 days.
\<close>

theorem wider_window_superset_witness:
  "generate_project_summary sample_parser sample_store sample_now 30 = Inr sample_summary
   \<and> generate_project_summary sample_parser sample_store sample_now 100 = Inr wide_summary
   \<and> set (meetings sample_summary) \<subseteq> set (meetings wide_summary)
   \<and> set (requirement_changes sample_summary) \<subseteq> set (requirement_changes wide_summary)
   \<and> set (milestones sample_summary) \<subseteq> set (milestones wide_summary)"
proof -
  have "(30::int) < 100" by simp
  moreover have "0 \<le> sample_now - 100 * microseconds_per_day"
    by (simp add: sample_now_def microseconds_per_day_def)
  ultimately show ?thesis
    using wider_window_superset[OF sample_summary_30, of 100] sample_summary_30
      sample_summary_100
    by auto
qed

section \<open>Properties of the conversation buffer\<close>

lemma add_message_positive:
  assumes "0 < max_history_length cm"
  shows "add_message r c cm =
     (Inr (), cm\<lparr>history :=
        (if max_history_length cm \<le> int (length (history cm)) then tl (history cm)
         else history cm) @ [\<lparr>role = r, content = c\<rparr>]\<rparr>)"
  using assms by (cases "history cm") (auto simp: add_message_def)

lemma add_messages_window:
  assumes "0 < max_history_length cm"
      and "int (length (history cm)) \<le> max_history_length cm"
  shows "add_messages ts cm =
     (Inr (), cm\<lparr>history :=
        drop (length (history cm @ map turn ts) - nat (max_history_length cm))
          (history cm @ map turn ts)\<rparr>)"
  using assms
proof (induction ts arbitrary: cm)
  case Nil
  then show ?case by simp
next
  case (Cons t ts)
  obtain r c where t: "t = (r, c)" by (cases t)
  let ?h = "history cm"
  let ?m = "max_history_length cm"
  let ?h' = "(if ?m \<le> int (length ?h) then tl ?h else ?h) @ [\<lparr>role = r, content = c\<rparr>]"
  let ?cm' = "cm\<lparr>history := ?h'\<rparr>"
  have step: "add_message r c cm = (Inr (), ?cm')"
    by (rule add_message_positive[OF Cons.prems(1)])
  have m': "0 < max_history_length ?cm'" using Cons.prems(1) by simp
  have len': "int (length (history ?cm')) \<le> max_history_length ?cm'"
    using Cons.prems by auto
  have eq: "drop (length (?h' @ map turn ts) - nat ?m) (?h' @ map turn ts)
          = drop (length (?h @ map turn (t # ts)) - nat ?m) (?h @ map turn (t # ts))"
  proof (cases "?m \<le> int (length ?h)")
    case False
    then show ?thesis by (simp add: t turn_def)
  next
    case True
    with Cons.prems have l: "length ?h = nat ?m" by simp
    with Cons.prems(1) obtain x xs where h: "?h = x # xs" by (cases ?h) auto
    from l h have lx: "length xs = nat ?m - 1" by simp
    from True h l lx Cons.prems(1) show ?thesis
      by (simp add: t turn_def Suc_diff_le)
  qed
  from Cons.IH[OF m' len'] step eq show ?case
    by (simp add: t)
qed

text \<open>
  With a bound of zero or less, which the program never builds, the length test lets the
  empty buffer through to \<^verbatim>\<open>pop(0)\<close>, and the append raises.
\<close>

lemma add_message_no_room:
  "max_history_length cm \<le> 0 \<Longrightarrow> history cm = [] \<Longrightarrow>
   add_message r c cm = (Inl IndexError, cm)"
  by (simp add: add_message_def)

text \<open>
  Claim C4, for every buffer whose bound is positive (the program's buffer has the
  default bound 20). \<^verbatim>\<open>add_message\<close> raises nothing, removes the turn at index 0
  exactly when the length has reached the bound, and appends the new turn last. From the
  empty buffer, appending one turn more than the bound leaves all turns but the first, in
  the order they came: as many as the bound. After \<^verbatim>\<open>reset\<close> the snapshot is empty.
\<close>

theorem conversation_buffer_fifo:
  assumes "0 < max_history_length cm"
  shows "add_message r c cm =
           (Inr (), cm\<lparr>history :=
              (if max_history_length cm \<le> int (length (history cm)) then tl (history cm)
               else history cm) @ [\<lparr>role = r, content = c\<rparr>]\<rparr>)
       \<and> (history cm = [] \<and> int (length ts) = max_history_length cm + 1 \<longrightarrow>
            add_messages ts cm = (Inr (), cm\<lparr>history := map turn (tl ts)\<rparr>)
            \<and> int (length (history (snd (add_messages ts cm)))) = max_history_length cm
            \<and> get_context_messages (snd (add_messages ts cm)) = map turn (tl ts))
       \<and> get_context_messages (reset cm) = []"
proof -
  have "add_messages ts cm = (Inr (), cm\<lparr>history := map turn (tl ts)\<rparr>)"
    if h: "history cm = []" and l: "int (length ts) = max_history_length cm + 1"
  proof -
    from l assms have "length ts - nat (max_history_length cm) = 1" by linarith
    with add_messages_window[OF assms, of ts] h assms show ?thesis
      by (simp add: drop_Suc drop_map)
  qed
  moreover have "int (length (map turn (tl ts))) = max_history_length cm"
    if "int (length ts) = max_history_length cm + 1"
    using that assms by (cases ts) auto
  moreover have "get_context_messages (cm\<lparr>history := map turn (tl ts)\<rparr>) = map turn (tl ts)"
    by (simp add: get_context_messages_def)
  ultimately show ?thesis
    using add_message_positive[OF assms]
    by (simp add: get_context_messages_def reset_def)
qed

text \<open>
  The theorem of claim C4 at the buffer the program builds, with twenty-one turns.
\<close>

theorem conversation_buffer_fifo_witness:
  "0 < max_history_length new_conversation
   \<and> add_message ''user'' ''hello'' new_conversation =
       (Inr (), \<lparr>history = [\<lparr>role = ''user'', content = ''hello''\<rparr>], max_history_length = 20\<rparr>)
   \<and> history new_conversation = []
   \<and> int (length twenty_one_turns) = max_history_length new_conversation + 1
   \<and> add_messages twenty_one_turns new_conversation =
       (Inr (), \<lparr>history = map turn (tl twenty_one_turns), max_history_length = 20\<rparr>)
   \<and> length (history (snd (add_messages twenty_one_turns new_conversation))) = 20
   \<and> get_context_messages (reset (snd (add_messages twenty_one_turns new_conversation))) = []"
proof -
  have p: "0 < max_history_length new_conversation"
    by (simp add: new_conversation_def)
  have l: "int (length twenty_one_turns) = max_history_length new_conversation + 1"
    by (simp add: twenty_one_turns_def new_conversation_def)
  have h: "history new_conversation = []"
    by (simp add: new_conversation_def)
  from conversation_buffer_fifo[OF p, of "''user''" "''hello''" twenty_one_turns] l h
  show ?thesis
    by (simp add: new_conversation_def get_context_messages_def reset_def)
qed

section \<open>Properties of the context formatter\<close>

text \<open>
  Claim C6. When the scan returns a summary whose three lists are empty,
  \<^verbatim>\<open>get_recent_context\<close> returns the header line that names the window, an empty line,
  and the three labels with nothing under them but the empty line that precedes the next
  label; it logs no error.
\<close>

theorem empty_summary_context:
  assumes "generate_project_summary P st now days = Inr s"
      and "meetings s = []" and "requirement_changes s = []" and "milestones s = []"
  shows "get_recent_context P E st now days =
           (''Recent Project Context (Last '' @ str_int days @ '' days):'' @ [newline, newline]
            @ ''Meetings:'' @ [newline, newline]
            @ ''Requirement Changes:'' @ [newline, newline]
            @ ''Milestones:'' @ [newline], [])"
  using assms by (simp add: get_recent_context_def format_context_def)

text \<open>
  The theorem of claim C6 at the store with no record file, thirty days.
\<close>

theorem empty_summary_context_witness:
  "generate_project_summary sample_parser empty_store sample_now 30 =
     Inr \<lparr>summary_project_name = ''Confidant'', summary_period = ''Last 30 days'',
          meetings = [], requirement_changes = [], milestones = []\<rparr>
   \<and> get_recent_context sample_parser sample_exn_str empty_store sample_now 30 =
       (''Recent Project Context (Last 30 days):'' @ [newline, newline]
        @ ''Meetings:'' @ [newline, newline]
        @ ''Requirement Changes:'' @ [newline, newline]
        @ ''Milestones:'' @ [newline], [])"
proof -
  have g: "generate_project_summary sample_parser empty_store sample_now 30 =
     Inr \<lparr>summary_project_name = ''Confidant'', summary_period = ''Last 30 days'',
          meetings = [], requirement_changes = [], milestones = []\<rparr>"
    by (simp add: generate_project_summary_def empty_store_def minus_days_def
        microseconds_per_day_def datetime_max_def sample_now_def str_int_30)
  from empty_summary_context[OF g, of sample_exn_str] g show ?thesis
    by (simp add: str_int_30)
qed

section \<open>Properties of the assistant\<close>

lemma add_message_history:
  assumes "add_message r c cm = (Inr u, cm')"
  shows "history cm' =
           (if max_history_length cm \<le> int (length (history cm)) then tl (history cm)
            else history cm) @ [\<lparr>role = r, content = c\<rparr>]
       \<and> max_history_length cm' = max_history_length cm"
  using assms by (auto simp: add_message_def split: if_splits list.splits)

lemma run_provider_failure:
  assumes "add_message ''user'' query (conv w) = (Inr u, c1)"
      and "llm (system_prompt (fst (get_recent_context P E (disk w) now 30)))
             (get_context_messages c1) = Inl e
         \<or> (llm (system_prompt (fst (get_recent_context P E (disk w) now 30)))
             (get_context_messages c1) = Inr [] \<and> e = IndexError)"
  shows "run P E llm now X query w =
           run_failure E e (w\<lparr>conv := c1\<rparr>) (snd (get_recent_context P E (disk w) now 30))"
  using assms by (auto simp: run_def split: prod.splits)

text \<open>
  Claim C9. When the user's turn was appended and the provider call then raises (or its
  response has no content block, which raises at \<^verbatim>\<open>response.content[0]\<close>), the reply is the
  error text, the buffer is the one the append of the user's turn left, whose last turn
  is the user's, and no turn follows it; the store is untouched.
\<close>

theorem provider_failure_keeps_user_turn:
  assumes "add_message ''user'' query (conv w) = (Inr u, c1)"
      and "llm (system_prompt (fst (get_recent_context P E (disk w) now 30)))
             (get_context_messages c1) = Inl e
         \<or> (llm (system_prompt (fst (get_recent_context P E (disk w) now 30)))
             (get_context_messages c1) = Inr [] \<and> e = IndexError)"
  shows "reply (run P E llm now X query w) = error_reply E e
       \<and> conv (after (run P E llm now X query w)) = c1
       \<and> history (conv (after (run P E llm now X query w))) =
           (if max_history_length (conv w) \<le> int (length (history (conv w)))
            then tl (history (conv w)) else history (conv w))
           @ [\<lparr>role = ''user'', content = query\<rparr>]
       \<and> disk (after (run P E llm now X query w)) = disk w"
  using run_provider_failure[where llm = llm and P = P and E = E and X = X, OF assms]
    add_message_history[OF assms(1)]
  by (simp add: run_failure_def)

text \<open>
  The theorem of claim C9 at the program's fresh buffer, with a provider that raises.
\<close>

theorem provider_failure_keeps_user_turn_witness:
  "add_message ''user'' sample_query (conv sample_world) =
     (Inr (), \<lparr>history = [\<lparr>role = ''user'', content = sample_query\<rparr>],
               max_history_length = 20\<rparr>)
   \<and> reply (run sample_parser sample_exn_str failing_llm sample_now sample_stamps
              sample_query sample_world) =
       ''An error occurred while processing your request. Please try again. Error details: Connection error.''
   \<and> history (conv (after (run sample_parser sample_exn_str failing_llm sample_now
              sample_stamps sample_query sample_world))) =
       [\<lparr>role = ''user'', content = sample_query\<rparr>]
   \<and> disk (after (run sample_parser sample_exn_str failing_llm sample_now
              sample_stamps sample_query sample_world)) = sample_store"
proof -
  have a: "add_message ''user'' sample_query (conv sample_world) =
     (Inr (), \<lparr>history = [\<lparr>role = ''user'', content = sample_query\<rparr>],
               max_history_length = 20\<rparr>)"
    by (simp add: add_message_def sample_world_def new_conversation_def)
  have l: "failing_llm
             (system_prompt (fst (get_recent_context sample_parser sample_exn_str
                (disk sample_world) sample_now 30)))
             (get_context_messages \<lparr>history = [\<lparr>role = ''user'', content = sample_query\<rparr>],
               max_history_length = 20\<rparr>) = Inl (ProviderError ''Connection error.'')
         \<or> (failing_llm
             (system_prompt (fst (get_recent_context sample_parser sample_exn_str
                (disk sample_world) sample_now 30)))
             (get_context_messages \<lparr>history = [\<lparr>role = ''user'', content = sample_query\<rparr>],
               max_history_length = 20\<rparr>) = Inr []
            \<and> ProviderError ''Connection error.'' = IndexError)"
    by (simp add: failing_llm_def)
  from provider_failure_keeps_user_turn[where llm = failing_llm and P = sample_parser
      and E = sample_exn_str and X = sample_stamps, OF a l] a
  show ?thesis
    by (simp add: error_reply_def sample_exn_str_def sample_world_def new_conversation_def)
qed

text \<open>
  Claim C8, as the code has it. \<^verbatim>\<open>run\<close> always returns a text. A failure of the context
  retrieval is not turned into the reply: \<^verbatim>\<open>get_recent_context\<close> absorbs it into the
  context text that goes into the system prompt, and the exchange goes on. An exception
  of a buffer append, of the provider call or of reading its first content block gives
  the error text as reply. When both appends and the provider call succeed, the reply is
  the provider's text whatever the meeting log does: its exception only adds a warning
  to the log.
\<close>

theorem assistant_reply:
  assumes "get_recent_context P E (disk w) now 30 = (ctx, lg)"
  shows "(generate_project_summary P (disk w) now 30 = Inl e0 \<longrightarrow>
            ctx = ''Unable to generate project context. Error: '' @ E e0)
       \<and> (add_message ''user'' query (conv w) = (Inl e, c) \<longrightarrow>
            reply (run P E llm now X query w) = error_reply E e)
       \<and> (add_message ''user'' query (conv w) = (Inr u, c1) \<longrightarrow>
            (llm (system_prompt ctx) (get_context_messages c1) = Inl e \<longrightarrow>
               reply (run P E llm now X query w) = error_reply E e)
          \<and> (llm (system_prompt ctx) (get_context_messages c1) = Inr [] \<longrightarrow>
               reply (run P E llm now X query w) = error_reply E IndexError)
          \<and> (llm (system_prompt ctx) (get_context_messages c1) = Inr (a # bs) \<longrightarrow>
               (add_message ''assistant'' a c1 = (Inl e, c) \<longrightarrow>
                  reply (run P E llm now X query w) = error_reply E e)
             \<and> (add_message ''assistant'' a c1 = (Inr u2, c2) \<longrightarrow>
                  reply (run P E llm now X query w) = a
                \<and> (log_meeting X (exchange_details query a) (disk w) = (Inl e, d) \<longrightarrow>
                     logged (run P E llm now X query w) =
                       lg @ [(WARNING, ''Could not log meeting: '' @ E e)]
                   \<and> after (run P E llm now X query w) = \<lparr>conv = c2, disk = d\<rparr>)
                \<and> (log_meeting X (exchange_details query a) (disk w) = (Inr v, d) \<longrightarrow>
                     logged (run P E llm now X query w) = lg
                   \<and> after (run P E llm now X query w) = \<lparr>conv = c2, disk = d\<rparr>))))"
proof -
  have "ctx = ''Unable to generate project context. Error: '' @ E e0"
    if "generate_project_summary P (disk w) now 30 = Inl e0"
    using that assms by (simp add: get_recent_context_def context_failure_def)
  moreover have "reply (run P E llm now X query w) = error_reply E e"
    if "add_message ''user'' query (conv w) = (Inl e, c)"
    using that assms by (simp add: run_def run_failure_def)
  moreover have "reply (run P E llm now X query w) = error_reply E e"
    if "add_message ''user'' query (conv w) = (Inr u, c1)"
      and "llm (system_prompt ctx) (get_context_messages c1) = Inl e"
    using that assms by (simp add: run_def run_failure_def)
  moreover have "reply (run P E llm now X query w) = error_reply E IndexError"
    if "add_message ''user'' query (conv w) = (Inr u, c1)"
      and "llm (system_prompt ctx) (get_context_messages c1) = Inr []"
    using that assms by (simp add: run_def run_failure_def)
  moreover have "reply (run P E llm now X query w) = error_reply E e"
    if "add_message ''user'' query (conv w) = (Inr u, c1)"
      and "llm (system_prompt ctx) (get_context_messages c1) = Inr (a # bs)"
      and "add_message ''assistant'' a c1 = (Inl e, c)"
    using that assms by (simp add: run_def run_failure_def)
  moreover have "reply (run P E llm now X query w) = a"
    if "add_message ''user'' query (conv w) = (Inr u, c1)"
      and "llm (system_prompt ctx) (get_context_messages c1) = Inr (a # bs)"
      and "add_message ''assistant'' a c1 = (Inr u2, c2)"
    using that assms by (simp add: run_def split: prod.splits sum.splits)
  moreover have "logged (run P E llm now X query w) =
                   lg @ [(WARNING, ''Could not log meeting: '' @ E e)]
               \<and> after (run P E llm now X query w) = \<lparr>conv = c2, disk = d\<rparr>"
    if "add_message ''user'' query (conv w) = (Inr u, c1)"
      and "llm (system_prompt ctx) (get_context_messages c1) = Inr (a # bs)"
      and "add_message ''assistant'' a c1 = (Inr u2, c2)"
      and "log_meeting X (exchange_details query a) (disk w) = (Inl e, d)"
    using that assms by (simp add: run_def)
  moreover have "logged (run P E llm now X query w) = lg
               \<and> after (run P E llm now X query w) = \<lparr>conv = c2, disk = d\<rparr>"
    if "add_message ''user'' query (conv w) = (Inr u, c1)"
      and "llm (system_prompt ctx) (get_context_messages c1) = Inr (a # bs)"
      and "add_message ''assistant'' a c1 = (Inr u2, c2)"
      and "log_meeting X (exchange_details query a) (disk w) = (Inr v, d)"
    using that assms by (simp add: run_def)
  ultimately show ?thesis by blast
qed

lemma corrupt_store_scan:
  "generate_project_summary sample_parser corrupt_store sample_now 30 = Inl JSONDecodeError"
  by (simp add: generate_project_summary_def corrupt_store_def sample_defs)

text \<open>
  Claim C8 as stated fails where it says that a failure of the context retrieval becomes
  the error text: over the store with the malformed meeting file the retrieval fails, and
  the reply is the provider's text.
\<close>

theorem context_failure_counterexample:
  "generate_project_summary sample_parser (disk corrupt_world) sample_now 30
     = Inl JSONDecodeError
   \<and> reply (run sample_parser sample_exn_str sample_llm sample_now sample_stamps
              sample_query corrupt_world) = ''Use a layered design.''"
  by (simp add: corrupt_world_def corrupt_store_scan run_def get_recent_context_def
      context_failure_def add_message_def new_conversation_def sample_llm_def
      split: prod.splits sum.splits)

text \<open>
  The theorem of claim C8 at the store whose metadata file is malformed, so that the
  meeting log raises after the provider has answered: the reply is the provider's text
  and the log holds the warning.
\<close>

theorem assistant_reply_witness:
  "get_recent_context sample_parser sample_exn_str (disk unindexed_world) sample_now 30 =
     (''Recent Project Context (Last 30 days):'' @ [newline, newline]
      @ ''Meetings:'' @ [newline, newline]
      @ ''Requirement Changes:'' @ [newline, newline]
      @ ''Milestones:'' @ [newline], [])
   \<and> fst (log_meeting sample_stamps
            (exchange_details sample_query ''Use a layered design.'') (disk unindexed_world))
       = Inl JSONDecodeError
   \<and> reply (run sample_parser sample_exn_str sample_llm sample_now sample_stamps
              sample_query unindexed_world) = ''Use a layered design.''
   \<and> logged (run sample_parser sample_exn_str sample_llm sample_now sample_stamps
              sample_query unindexed_world) =
       [(WARNING, ''Could not log meeting: Expecting value: line 1 column 1 (char 0)'')]"
proof -
  let ?c1 = "\<lparr>history = [\<lparr>role = ''user'', content = sample_query\<rparr>],
              max_history_length = 20\<rparr>"
  let ?c2 = "\<lparr>history = [\<lparr>role = ''user'', content = sample_query\<rparr>,
                         \<lparr>role = ''assistant'', content = ''Use a layered design.''\<rparr>],
              max_history_length = 20\<rparr>"
  let ?lm = "log_meeting sample_stamps
               (exchange_details sample_query ''Use a layered design.'') (disk unindexed_world)"
  have g: "get_recent_context sample_parser sample_exn_str (disk unindexed_world) sample_now 30 =
     (''Recent Project Context (Last 30 days):'' @ [newline, newline]
      @ ''Meetings:'' @ [newline, newline]
      @ ''Requirement Changes:'' @ [newline, newline]
      @ ''Milestones:'' @ [newline], [])"
    by (simp add: get_recent_context_def format_context_def generate_project_summary_def
        unindexed_world_def unindexed_store_def empty_store_def minus_days_def
        microseconds_per_day_def datetime_max_def sample_now_def str_int_30)
  have a1: "add_message ''user'' sample_query (conv unindexed_world) = (Inr (), ?c1)"
    by (simp add: add_message_def unindexed_world_def new_conversation_def)
  have l: "sample_llm
             (system_prompt (''Recent Project Context (Last 30 days):'' @ [newline, newline]
                @ ''Meetings:'' @ [newline, newline]
                @ ''Requirement Changes:'' @ [newline, newline]
                @ ''Milestones:'' @ [newline]))
             (get_context_messages ?c1) = Inr [''Use a layered design.'']"
    by (simp add: sample_llm_def)
  have a2: "add_message ''assistant'' ''Use a layered design.'' ?c1 = (Inr (), ?c2)"
    by (simp add: add_message_def)
  have f: "fst ?lm = Inl JSONDecodeError"
    by (simp add: log_meeting_def update_project_metadata_def unindexed_world_def
        unindexed_store_def Let_def)
  then have lm: "?lm = (Inl JSONDecodeError, snd ?lm)"
    by (metis prod.collapse)
  from assistant_reply[where P = sample_parser and E = sample_exn_str and llm = sample_llm
      and X = sample_stamps and query = sample_query and u = "()" and ?c1.0 = ?c1
      and a = "''Use a layered design.''" and bs = "[]" and ?u2.0 = "()" and ?c2.0 = ?c2
      and e = JSONDecodeError and d = "snd ?lm", OF g] a1 l a2 lm g f
  show ?thesis by (simp add: sample_exn_str_def)
qed

section \<open>Properties of the record store\<close>


lemma update_project_metadata_result:
  "fst (update_project_metadata X section new_item st) = Inr JNull
   \<or> (\<exists>e. fst (update_project_metadata X section new_item st) = Inl e)"
  by (simp add: update_project_metadata_def Let_def
      split: sum.splits json.splits option.splits)






section \<open>Properties of the category filter\<close>






















end
